theory Spec2Isabelle
  imports Complex_Main "HOL-Library.AList"
begin

section \<open>Data model (src/models/masark_models.py)\<close>

datatype PersonalityDimension = EI | SN | TF | JP

datatype PreferenceStrength = SLIGHT | MODERATE | CLEAR | VERY_CLEAR

text \<open>The enum's \<open>.value\<close>, and \<open>.value.replace('-', '')\<close>, the key under which
  the services file a dimension.\<close>

fun dimension_value :: "PersonalityDimension \<Rightarrow> string" where
  "dimension_value EI = ''E-I''"
| "dimension_value SN = ''S-N''"
| "dimension_value TF = ''T-F''"
| "dimension_value JP = ''J-P''"

definition dim_key :: "PersonalityDimension \<Rightarrow> string" where
  "dim_key d = filter (\<lambda>c. c \<noteq> CHR ''-'') (dimension_value d)"

text \<open>Rows of the tables the scoring services read and write. Only the columns the
  services touch are kept. \<open>id\<close> is suffixed with the table, since \<open>id\<close> is taken.\<close>

record Question =
  id_Question :: int
  dimension :: PersonalityDimension
  option_a_maps_to_first :: bool
  is_active :: bool

record PersonalityType =
  id_PersonalityType :: int
  code :: string
  name_en :: "string option"

record AssessmentAnswer =
  session_id :: int
  question_id :: int
  selected_option :: string

record AssessmentSession =
  is_completed :: bool
  personality_type_id :: "int option"
  e_strength :: "real option"
  s_strength :: "real option"
  t_strength :: "real option"
  j_strength :: "real option"
  ei_clarity :: "PreferenceStrength option"
  sn_clarity :: "PreferenceStrength option"
  tf_clarity :: "PreferenceStrength option"
  jp_clarity :: "PreferenceStrength option"

text \<open>The database: sessions by primary key, the other tables as row lists in
  primary-key order.\<close>

record database =
  sessions :: "int \<rightharpoonup> AssessmentSession"
  answers :: "AssessmentAnswer list"
  questions :: "Question list"
  personality_types :: "PersonalityType list"

text \<open>Python dictionaries keep insertion order, so they are association lists:
  \<open>d[k] = v\<close> is \<open>AList.update k v d\<close>, \<open>d.get(k)\<close> is \<open>map_of d k\<close>,
  \<open>d.get(k, dflt)\<close> is \<open>dict_get d k dflt\<close>.\<close>

definition dict_get :: "('k \<times> 'v) list \<Rightarrow> 'k \<Rightarrow> 'v \<Rightarrow> 'v" where
  "dict_get d k dflt = (case map_of d k of None \<Rightarrow> dflt | Some v \<Rightarrow> v)"

text \<open>The errors the services raise. All are \<open>ValueError\<close> in the source, told apart
  by their message; \<open>StatisticsError\<close> comes from the \<open>statistics\<close> module and
  \<open>CommitFailed\<close> stands for an exception of \<open>db.session.commit()\<close>.\<close>

datatype error =
    SessionNotFound int
  | SessionNotCompleted int
  | IncompleteAssessment nat
  | InvalidResponseCount nat
  | InvalidResponseValue nat int
  | CatalogMismatch nat
  | StatisticsError
  | CommitFailed

section \<open>Basic scoring (src/services/personality_scoring.py)\<close>

text \<open>The counters start at 0 and are only ever incremented, hence \<open>nat\<close>.\<close>

record PersonalityScores =
  e_score :: nat
  i_score :: nat
  s_score :: nat
  n_score :: nat
  t_score :: nat
  f_score :: nat
  j_score :: nat
  p_score :: nat

record PersonalityResult =
  personality_type :: "string option"
  type_code :: string
  dimension_scores :: PersonalityScores
  preference_strengths :: "(string \<times> real) list"
  preference_clarity :: "(string \<times> PreferenceStrength) list"
  borderline_dimensions :: "string list"
  total_questions_per_dimension :: "(string \<times> nat) list"

definition TIE_BREAKING_RULES :: "(string \<times> string) list" where
  "TIE_BREAKING_RULES = [(''EI'', ''I''), (''SN'', ''N''), (''TF'', ''F''), (''JP'', ''P'')]"

fun STRENGTH_THRESHOLDS :: "PreferenceStrength \<Rightarrow> real" where
  "STRENGTH_THRESHOLDS SLIGHT = 0.60"
| "STRENGTH_THRESHOLDS MODERATE = 0.75"
| "STRENGTH_THRESHOLDS CLEAR = 0.90"
| "STRENGTH_THRESHOLDS VERY_CLEAR = 1.0"

definition PersonalityScores_init :: PersonalityScores where
  "PersonalityScores_init =
     \<lparr>e_score = 0, i_score = 0, s_score = 0, n_score = 0,
      t_score = 0, f_score = 0, j_score = 0, p_score = 0\<rparr>"

text \<open>The expression both entry points compute for \<open>maps_to_first\<close>.\<close>

definition maps_to_first :: "string \<Rightarrow> Question \<Rightarrow> bool" where
  "maps_to_first selected question =
     ((selected = ''A'' \<and> option_a_maps_to_first question) \<or>
      (selected = ''B'' \<and> \<not> option_a_maps_to_first question))"

text \<open>The \<open>if dimension == ...\<close> chain that increments one of the eight counters.\<close>

fun increment_score :: "PersonalityScores \<Rightarrow> PersonalityDimension \<Rightarrow> bool \<Rightarrow> PersonalityScores" where
  "increment_score scores EI m =
     (if m then scores\<lparr>e_score := e_score scores + 1\<rparr> else scores\<lparr>i_score := i_score scores + 1\<rparr>)"
| "increment_score scores SN m =
     (if m then scores\<lparr>s_score := s_score scores + 1\<rparr> else scores\<lparr>n_score := n_score scores + 1\<rparr>)"
| "increment_score scores TF m =
     (if m then scores\<lparr>t_score := t_score scores + 1\<rparr> else scores\<lparr>f_score := f_score scores + 1\<rparr>)"
| "increment_score scores JP m =
     (if m then scores\<lparr>j_score := j_score scores + 1\<rparr> else scores\<lparr>p_score := p_score scores + 1\<rparr>)"

text \<open>One turn of the loop of \<open>_calculate_dimension_scores\<close>: an answer whose question
  is not in the dictionary is passed over (\<open>continue\<close>).\<close>

definition score_answer ::
  "(int \<times> Question) list \<Rightarrow> PersonalityScores \<Rightarrow> AssessmentAnswer \<Rightarrow> PersonalityScores" where
  "score_answer qdict scores answer =
     (case map_of qdict (question_id answer) of
        None \<Rightarrow> scores
      | Some question \<Rightarrow>
          increment_score scores (dimension question)
            (maps_to_first (selected_option answer) question))"

definition calculate_dimension_scores ::
  "AssessmentAnswer list \<Rightarrow> (int \<times> Question) list \<Rightarrow> PersonalityScores" where
  "calculate_dimension_scores anss qdict = foldl (score_answer qdict) PersonalityScores_init anss"

text \<open>\<open>d[k]\<close> on one of the constant tables, read at a key that is written in it.\<close>

definition dict_item :: "('k \<times> 'v) list \<Rightarrow> 'k \<Rightarrow> 'v" where
  "dict_item d k = the (map_of d k)"

definition determine_personality_type :: "PersonalityScores \<Rightarrow> string" where
  "determine_personality_type scores =
     concat
       [ if e_score scores > i_score scores then ''E''
         else if i_score scores > e_score scores then ''I''
         else dict_item TIE_BREAKING_RULES ''EI'',
         if s_score scores > n_score scores then ''S''
         else if n_score scores > s_score scores then ''N''
         else dict_item TIE_BREAKING_RULES ''SN'',
         if t_score scores > f_score scores then ''T''
         else if f_score scores > t_score scores then ''F''
         else dict_item TIE_BREAKING_RULES ''TF'',
         if j_score scores > p_score scores then ''J''
         else if p_score scores > j_score scores then ''P''
         else dict_item TIE_BREAKING_RULES ''JP'' ]"

definition calculate_preference_strengths :: "PersonalityScores \<Rightarrow> (string \<times> real) list" where
  "calculate_preference_strengths scores =
     (let strengths = [];
          ei_total = e_score scores + i_score scores;
          sn_total = s_score scores + n_score scores;
          tf_total = t_score scores + f_score scores;
          jp_total = j_score scores + p_score scores;
          strengths =
            (if ei_total > 0
             then AList.update ''I'' (real (i_score scores) / real ei_total)
                    (AList.update ''E'' (real (e_score scores) / real ei_total) strengths)
             else strengths);
          strengths =
            (if sn_total > 0
             then AList.update ''N'' (real (n_score scores) / real sn_total)
                    (AList.update ''S'' (real (s_score scores) / real sn_total) strengths)
             else strengths);
          strengths =
            (if tf_total > 0
             then AList.update ''F'' (real (f_score scores) / real tf_total)
                    (AList.update ''T'' (real (t_score scores) / real tf_total) strengths)
             else strengths);
          strengths =
            (if jp_total > 0
             then AList.update ''P'' (real (p_score scores) / real jp_total)
                    (AList.update ''J'' (real (j_score scores) / real jp_total) strengths)
             else strengths)
      in strengths)"

text \<open>The list of (dimension, strength of the dominant preference) that
  \<open>_calculate_preference_clarity\<close> and \<open>_identify_borderline_dimensions\<close> both build.\<close>

definition dominant_strengths :: "(string \<times> real) list \<Rightarrow> (string \<times> real) list" where
  "dominant_strengths strengths =
     [ (''EI'', max (dict_get strengths ''E'' 0) (dict_get strengths ''I'' 0)),
       (''SN'', max (dict_get strengths ''S'' 0) (dict_get strengths ''N'' 0)),
       (''TF'', max (dict_get strengths ''T'' 0) (dict_get strengths ''F'' 0)),
       (''JP'', max (dict_get strengths ''J'' 0) (dict_get strengths ''P'' 0)) ]"

definition clarity_category :: "real \<Rightarrow> PreferenceStrength" where
  "clarity_category strength =
     (if strength < STRENGTH_THRESHOLDS SLIGHT then SLIGHT
      else if strength < STRENGTH_THRESHOLDS MODERATE then MODERATE
      else if strength < STRENGTH_THRESHOLDS CLEAR then CLEAR
      else VERY_CLEAR)"

definition calculate_preference_clarity ::
  "(string \<times> real) list \<Rightarrow> (string \<times> PreferenceStrength) list" where
  "calculate_preference_clarity strengths =
     foldl (\<lambda>clarity (dim_name, strength). AList.update dim_name (clarity_category strength) clarity)
       [] (dominant_strengths strengths)"

definition identify_borderline_dimensions :: "(string \<times> real) list \<Rightarrow> real \<Rightarrow> string list" where
  "identify_borderline_dimensions strengths threshold =
     map fst (filter (\<lambda>(dim_name, strength). strength < threshold) (dominant_strengths strengths))"

definition count_questions_per_dimension :: "Question list \<Rightarrow> (string \<times> nat) list" where
  "count_questions_per_dimension qs =
     foldl (\<lambda>counts question.
              (let k = dim_key (dimension question)
               in case map_of counts k of
                    None \<Rightarrow> counts
                  | Some c \<Rightarrow> AList.update k (c + 1) counts))
       [(''EI'', 0), (''SN'', 0), (''TF'', 0), (''JP'', 0)] qs"

text \<open>\<open>{q.id: q for q in Question.query.filter_by(is_active=True).all()}\<close>\<close>

definition active_questions :: "database \<Rightarrow> (int \<times> Question) list" where
  "active_questions db =
     foldl (\<lambda>d q. AList.update (id_Question q) q d) [] (filter is_active (questions db))"

text \<open>\<open>PersonalityType.query.filter_by(code=type_code).first()\<close>\<close>

definition personality_type_by_code :: "database \<Rightarrow> string \<Rightarrow> PersonalityType option" where
  "personality_type_by_code db c = find (\<lambda>pt. code pt = c) (personality_types db)"

text \<open>\<open>personality_type.name_en if personality_type else f"Type {type_code}"\<close>;
  the column \<open>name_en\<close> is nullable.\<close>

definition type_name_of :: "database \<Rightarrow> string \<Rightarrow> string option" where
  "type_name_of db c =
     (case personality_type_by_code db c of
        Some pt \<Rightarrow> name_en pt
      | None \<Rightarrow> Some (''Type '' @ c))"

text \<open>The write-back. The session object is changed field by field and the change
  reaches the database at \<open>commit\<close>; when \<open>commit\<close> raises, \<open>rollback\<close> discards
  it and the exception is raised again. Whether \<open>commit\<close> succeeds is for the
  database to decide, hence the parameter \<open>commit_ok\<close>.\<close>

definition update_session_with_results ::
  "bool \<Rightarrow> database \<Rightarrow> int \<Rightarrow> AssessmentSession \<Rightarrow> PersonalityResult \<Rightarrow> (error + unit) \<times> database" where
  "update_session_with_results commit_ok db sid session result =
     (let session =
            (case personality_type_by_code db (type_code result) of
               Some pt \<Rightarrow> session\<lparr>personality_type_id := Some (id_PersonalityType pt)\<rparr>
             | None \<Rightarrow> session);
          strengths = preference_strengths result;
          session = session\<lparr>e_strength := Some (dict_get strengths ''E'' 0)\<rparr>;
          session = session\<lparr>s_strength := Some (dict_get strengths ''S'' 0)\<rparr>;
          session = session\<lparr>t_strength := Some (dict_get strengths ''T'' 0)\<rparr>;
          session = session\<lparr>j_strength := Some (dict_get strengths ''J'' 0)\<rparr>;
          clarity = preference_clarity result;
          session = session\<lparr>ei_clarity := map_of clarity ''EI''\<rparr>;
          session = session\<lparr>sn_clarity := map_of clarity ''SN''\<rparr>;
          session = session\<lparr>tf_clarity := map_of clarity ''TF''\<rparr>;
          session = session\<lparr>jp_clarity := map_of clarity ''JP''\<rparr>
      in if commit_ok
         then (Inr (), db\<lparr>sessions := (sessions db)(sid \<mapsto> session)\<rparr>)
         else (Inl CommitFailed, db))"

text \<open>What both entry points do once the tally is known: resolve the type, compute
  strengths, clarity and borderline dimensions, and build the result.\<close>

definition build_result :: "database \<Rightarrow> PersonalityScores \<Rightarrow> Question list \<Rightarrow> PersonalityResult" where
  "build_result db scores qs =
     (let tc = determine_personality_type scores;
          strengths = calculate_preference_strengths scores;
          clarity = calculate_preference_clarity strengths;
          borderline = identify_borderline_dimensions strengths 0.55;
          questions_per_dimension = count_questions_per_dimension qs
      in \<lparr>personality_type = type_name_of db tc,
          type_code = tc,
          dimension_scores = scores,
          preference_strengths = strengths,
          preference_clarity = clarity,
          borderline_dimensions = borderline,
          total_questions_per_dimension = questions_per_dimension\<rparr>)"

text \<open>\<open>calculate_personality_type\<close>, the session entry point. It returns the result or
  the error raised, and the database as it is afterwards.\<close>

definition calculate_personality_type ::
  "bool \<Rightarrow> database \<Rightarrow> int \<Rightarrow> (error + PersonalityResult) \<times> database" where
  "calculate_personality_type commit_ok db sid =
     (case sessions db sid of
        None \<Rightarrow> (Inl (SessionNotFound sid), db)
      | Some session \<Rightarrow>
          if \<not> is_completed session then (Inl (SessionNotCompleted sid), db)
          else
            let anss = filter (\<lambda>a. session_id a = sid) (answers db)
            in if length anss \<noteq> 36 then (Inl (IncompleteAssessment (length anss)), db)
               else
                 let qdict = active_questions db;
                     scores = calculate_dimension_scores anss qdict;
                     result = build_result db scores (map snd qdict)
                 in case update_session_with_results commit_ok db sid session result of
                      (Inl e, db') \<Rightarrow> (Inl e, db')
                    | (Inr u, db') \<Rightarrow> (Inr result, db'))"

text \<open>\<open>calculate_personality_type_from_responses\<close>, the raw-response entry point.
  \<open>responses\<close> is a list of integers, so the \<open>isinstance\<close> test holds by typing.
  \<open>random.choice(['A', 'B'])\<close> is the parameter \<open>choice\<close>: what is drawn at each
  position, \<open>True\<close> for \<open>'A'\<close>.\<close>

fun first_invalid_response :: "nat \<Rightarrow> int list \<Rightarrow> (nat \<times> int) option" where
  "first_invalid_response i [] = None"
| "first_invalid_response i (r # rs) =
     (if r < 1 \<or> r > 5 then Some (i, r) else first_invalid_response (Suc i) rs)"

definition response_option :: "(nat \<Rightarrow> bool) \<Rightarrow> nat \<Rightarrow> int \<Rightarrow> string" where
  "response_option choice i response =
     (if response \<le> 2 then ''A''
      else if response \<ge> 4 then ''B''
      else if choice i then ''A'' else ''B'')"

fun score_responses ::
  "(nat \<Rightarrow> bool) \<Rightarrow> nat \<Rightarrow> (int \<times> Question) list \<Rightarrow> PersonalityScores \<Rightarrow> PersonalityScores" where
  "score_responses choice i [] scores = scores"
| "score_responses choice i ((response, question) # rest) scores =
     score_responses choice (Suc i) rest
       (increment_score scores (dimension question)
          (maps_to_first (response_option choice i response) question))"

definition calculate_personality_type_from_responses ::
  "(nat \<Rightarrow> bool) \<Rightarrow> database \<Rightarrow> int list \<Rightarrow> (error + PersonalityResult) \<times> database" where
  "calculate_personality_type_from_responses choice db responses =
     (if length responses \<noteq> 36 then (Inl (InvalidResponseCount (length responses)), db)
      else case first_invalid_response 0 responses of
        Some (i, r) \<Rightarrow> (Inl (InvalidResponseValue i r), db)
      | None \<Rightarrow>
          let qs = sort_key id_Question (filter is_active (questions db))
          in if length qs \<noteq> 36 then (Inl (CatalogMismatch (length qs)), db)
             else
               let scores = score_responses choice 0 (zip responses qs) PersonalityScores_init
               in (Inr (build_result db scores qs), db))"

section \<open>Enhanced scoring (src/services/enhanced_personality_scoring.py)\<close>

text \<open>Fields that share a name with a field of the basic result carry the suffix
  \<open>_e\<close>. The two lists of advice texts (\<open>areas_for_exploration\<close>,
  \<open>confidence_notes\<close>) are left out: nothing is computed from them.\<close>

record StatisticalMetrics =
  internal_consistency :: real
  response_consistency :: real
  extreme_response_bias :: real
  acquiescence_bias :: real
  response_time_variance :: real
  confidence_interval :: "real \<times> real"

record DimensionAnalysis =
  dimension_da :: string
  raw_score :: nat
  total_questions :: nat
  percentage :: real
  preference_letter :: string
  strength_category :: PreferenceStrength
  confidence_level :: real
  standard_error :: real
  z_score :: real

record EnhancedPersonalityResult =
  personality_type_e :: "string option"
  type_code_e :: string
  type_confidence :: real
  dimension_analyses :: "(string \<times> DimensionAnalysis) list"
  statistical_metrics :: StatisticalMetrics
  borderline_dimensions_e :: "string list"
  type_stability_prediction :: real
  assessment_quality_score :: real
  retesting_recommended :: bool
  preference_strengths_e :: "(string \<times> real) list"
  preference_clarity_e :: "(string \<times> PreferenceStrength) list"

definition TIE_BREAKING_RULES_e :: "(string \<times> (string \<times> real)) list" where
  "TIE_BREAKING_RULES_e =
     [(''EI'', (''I'', 0.51)), (''SN'', (''N'', 0.51)), (''TF'', (''F'', 0.51)), (''JP'', (''P'', 0.51))]"

fun PROFESSIONAL_THRESHOLDS :: "PreferenceStrength \<Rightarrow> real" where
  "PROFESSIONAL_THRESHOLDS SLIGHT = 0.56"
| "PROFESSIONAL_THRESHOLDS MODERATE = 0.66"
| "PROFESSIONAL_THRESHOLDS CLEAR = 0.76"
| "PROFESSIONAL_THRESHOLDS VERY_CLEAR = 0.86"

definition QUALITY_THRESHOLDS :: "(string \<times> real) list" where
  "QUALITY_THRESHOLDS =
     [(''excellent'', 0.85), (''good'', 0.70), (''acceptable'', 0.55), (''questionable'', 0.40)]"

subsection \<open>The functions of Python's \<open>statistics\<close> module that the service calls\<close>

text \<open>\<open>mean\<close>, \<open>variance\<close> (the sample variance, divisor \<open>n - 1\<close>) and \<open>stdev\<close>,
  over the reals. The service calls \<open>mean\<close> on non-empty data and the other two on
  data of two points or more only.\<close>

definition statistics_mean :: "real list \<Rightarrow> real" where
  "statistics_mean data = sum_list data / real (length data)"

definition statistics_variance :: "real list \<Rightarrow> real" where
  "statistics_variance data =
     (let m = statistics_mean data
      in sum_list (map (\<lambda>x. (x - m)\<^sup>2) data) / real (length data - 1))"

definition statistics_stdev :: "real list \<Rightarrow> real" where
  "statistics_stdev data = sqrt (statistics_variance data)"

text \<open>\<open>geometric_mean\<close> raises \<open>StatisticsError\<close> on empty data and on a negative
  value. On data that holds a zero it raises in Python up to 3.11 and returns 0.0 in
  later versions; the repository does not fix the version, so both are modelled.\<close>

datatype statistics_module = Zero_Raises | Zero_Returns

definition geometric_mean :: "statistics_module \<Rightarrow> real list \<Rightarrow> error + real" where
  "geometric_mean py data =
     (if data = [] then Inl StatisticsError
      else if list_ex (\<lambda>x. x < 0) data then Inl StatisticsError
      else if list_ex (\<lambda>x. x = 0) data
           then (case py of Zero_Raises \<Rightarrow> Inl StatisticsError | Zero_Returns \<Rightarrow> Inr 0)
      else Inr (root (length data) (prod_list data)))"

subsection \<open>Dimensional analyses\<close>

definition dimension_scores_init :: "(string \<times> (string \<times> nat) list) list" where
  "dimension_scores_init =
     [(''EI'', [(''E'', 0), (''I'', 0), (''total'', 0)]),
      (''SN'', [(''S'', 0), (''N'', 0), (''total'', 0)]),
      (''TF'', [(''T'', 0), (''F'', 0), (''total'', 0)]),
      (''JP'', [(''J'', 0), (''P'', 0), (''total'', 0)])]"

text \<open>\<open>dimension_scores[dkey][k] += 1\<close>\<close>

definition bump ::
  "(string \<times> (string \<times> nat) list) list \<Rightarrow> string \<Rightarrow> string \<Rightarrow> (string \<times> (string \<times> nat) list) list" where
  "bump ds dkey k =
     (let inner = dict_item ds dkey
      in AList.update dkey (AList.update k (dict_item inner k + 1) inner) ds)"

definition count_answer ::
  "(int \<times> Question) list \<Rightarrow> (string \<times> (string \<times> nat) list) list \<Rightarrow> AssessmentAnswer
     \<Rightarrow> (string \<times> (string \<times> nat) list) list" where
  "count_answer qdict ds answer =
     (case map_of qdict (question_id answer) of
        None \<Rightarrow> ds
      | Some question \<Rightarrow>
          let dkey = dim_key (dimension question)
          in if map_of ds dkey = None then ds
             else
               let ds = bump ds dkey ''total'';
                   m = maps_to_first (selected_option answer) question
               in if dkey = ''EI'' then (if m then bump ds dkey ''E'' else bump ds dkey ''I'')
                  else if dkey = ''SN'' then (if m then bump ds dkey ''S'' else bump ds dkey ''N'')
                  else if dkey = ''TF'' then (if m then bump ds dkey ''T'' else bump ds dkey ''F'')
                  else if dkey = ''JP'' then (if m then bump ds dkey ''J'' else bump ds dkey ''P'')
                  else ds)"

definition calculate_confidence_level :: "nat \<Rightarrow> nat \<Rightarrow> real" where
  "calculate_confidence_level raw total_n =
     (if total_n = 0 then 0
      else
        let p = real raw / real total_n;
            confidence =
              (if total_n > 5
               then
                 let z_95 = 1.96;
                     margin_error = z_95 * sqrt (p * (1 - p) / real total_n);
                     distance_from_neutral = \<bar>p - 0.5\<bar>
                 in if margin_error > 0 then min 1 (distance_from_neutral / margin_error) else 1
               else \<bar>p - 0.5\<bar> * 2)
        in max 0 (min 1 confidence))"

definition calculate_standard_error :: "real \<Rightarrow> nat \<Rightarrow> real" where
  "calculate_standard_error pct n = (if n = 0 then 1 else sqrt (pct * (1 - pct) / real n))"

definition calculate_z_score :: "real \<Rightarrow> real" where
  "calculate_z_score pct = (pct - 0.5) / 0.5"

definition determine_strength_category :: "real \<Rightarrow> PreferenceStrength" where
  "determine_strength_category pct =
     (if pct < PROFESSIONAL_THRESHOLDS SLIGHT then SLIGHT
      else if pct < PROFESSIONAL_THRESHOLDS MODERATE then MODERATE
      else if pct < PROFESSIONAL_THRESHOLDS CLEAR then CLEAR
      else VERY_CLEAR)"

text \<open>The body of the loop over \<open>dimension_scores.items()\<close>, for a dimension with
  \<open>total > 0\<close>.\<close>

definition analyse_dimension :: "string \<Rightarrow> (string \<times> nat) list \<Rightarrow> DimensionAnalysis" where
  "analyse_dimension dk scores =
     (let first_letter = [dk ! 0];
          second_letter = [dk ! 1];
          first_score = dict_get scores first_letter 0;
          second_score = dict_get scores second_letter 0;
          pref = (if first_score \<ge> second_score then first_letter else second_letter);
          raw = (if first_score \<ge> second_score then first_score else second_score);
          total_n = dict_item scores ''total'';
          pct = real raw / real total_n
      in \<lparr>dimension_da = dk,
          raw_score = raw,
          total_questions = total_n,
          percentage = pct,
          preference_letter = pref,
          strength_category = determine_strength_category pct,
          confidence_level = calculate_confidence_level raw total_n,
          standard_error = calculate_standard_error pct total_n,
          z_score = calculate_z_score pct\<rparr>)"

definition calculate_dimensional_analyses ::
  "AssessmentAnswer list \<Rightarrow> (int \<times> Question) list \<Rightarrow> (string \<times> DimensionAnalysis) list" where
  "calculate_dimensional_analyses anss qdict =
     (let ds = foldl (count_answer qdict) dimension_scores_init anss
      in foldl (\<lambda>analyses (dk, scores).
                  if dict_item scores ''total'' = 0 then analyses
                  else AList.update dk (analyse_dimension dk scores) analyses)
           [] ds)"

text \<open>The letters and confidences \<open>_determine_type_with_confidence\<close> collects, one
  pair for each of the four keys in order.\<close>

definition type_letters_and_confidences ::
  "(string \<times> DimensionAnalysis) list \<Rightarrow> (string \<times> real) list" where
  "type_letters_and_confidences analyses =
     map (\<lambda>dk. case map_of analyses dk of
                  Some analysis \<Rightarrow> (preference_letter analysis, confidence_level analysis)
                | None \<Rightarrow> dict_item TIE_BREAKING_RULES_e dk)
       [''EI'', ''SN'', ''TF'', ''JP'']"

definition determine_type_with_confidence ::
  "statistics_module \<Rightarrow> (string \<times> DimensionAnalysis) list \<Rightarrow> error + (string \<times> real)" where
  "determine_type_with_confidence py analyses =
     (let picks = type_letters_and_confidences analyses;
          tc = concat (map fst picks);
          confidence_scores = map snd picks
      in if confidence_scores \<noteq> []
         then (case geometric_mean py confidence_scores of
                 Inl e \<Rightarrow> Inl e
               | Inr overall_confidence \<Rightarrow> Inr (tc, overall_confidence))
         else Inr (tc, 0.5))"

subsection \<open>Statistical metrics\<close>

definition collect_response ::
  "(int \<times> Question) list \<Rightarrow> (string \<times> real list) list \<Rightarrow> AssessmentAnswer
     \<Rightarrow> (string \<times> real list) list" where
  "collect_response qdict dimension_responses answer =
     (case map_of qdict (question_id answer) of
        None \<Rightarrow> dimension_responses
      | Some question \<Rightarrow>
          let dkey = dim_key (dimension question)
          in case map_of dimension_responses dkey of
               None \<Rightarrow> dimension_responses
             | Some responses \<Rightarrow>
                 AList.update dkey
                   (responses @ [if selected_option answer = ''A'' then 1 else 0])
                   dimension_responses)"

definition calculate_internal_consistency ::
  "AssessmentAnswer list \<Rightarrow> (int \<times> Question) list \<Rightarrow> real" where
  "calculate_internal_consistency anss qdict =
     (let dimension_responses =
            foldl (collect_response qdict)
              [(''EI'', []), (''SN'', []), (''TF'', []), (''JP'', [])] anss;
          max_variance = 0.25;
          consistencies =
            concat (map (\<lambda>(dkey, responses).
                           if length responses > 1
                           then [if max_variance > 0
                                 then 1 - statistics_variance responses / max_variance
                                 else 1]
                           else [])
                      dimension_responses)
      in if consistencies \<noteq> [] then statistics_mean consistencies else 0.5)"

text \<open>The number of places where the pattern changes; \<open>runs\<close> is one more.\<close>

fun count_changes :: "nat list \<Rightarrow> nat" where
  "count_changes (x # y # rest) = (if y \<noteq> x then 1 else 0) + count_changes (y # rest)"
| "count_changes [x] = 0"
| "count_changes [] = 0"

definition calculate_response_consistency :: "AssessmentAnswer list \<Rightarrow> real" where
  "calculate_response_consistency anss =
     (let response_pattern = map (\<lambda>a. if selected_option a = ''A'' then 1 else 0) anss;
          runs = 1 + count_changes response_pattern;
          expected_runs = real (length response_pattern) / 2;
          run_ratio = (if expected_runs > 0 then real runs / expected_runs else 1);
          consistency = 1 - \<bar>run_ratio - 1\<bar>
      in max 0 (min 1 consistency))"

definition calculate_extreme_response_bias :: "AssessmentAnswer list \<Rightarrow> real" where
  "calculate_extreme_response_bias anss =
     (if anss = [] then 0
      else
        let a_count = length (filter (\<lambda>a. selected_option a = ''A'') anss);
            total_count = length anss;
            a_ratio = real a_count / real total_count
        in \<bar>a_ratio - 0.5\<bar> * 2)"

definition calculate_acquiescence_bias ::
  "AssessmentAnswer list \<Rightarrow> (int \<times> Question) list \<Rightarrow> real" where
  "calculate_acquiescence_bias anss qdict =
     (if anss = [] then 0
      else
        let mappable = concat (map (\<lambda>a. case map_of qdict (question_id a) of
                                             None \<Rightarrow> []
                                           | Some q \<Rightarrow> [maps_to_first (selected_option a) q]) anss);
            total_mappable = length mappable;
            first_trait_choices = length (filter (\<lambda>m. m) mappable)
        in if total_mappable = 0 then 0
           else \<bar>real first_trait_choices / real total_mappable - 0.5\<bar> * 2)"

definition calculate_statistical_metrics ::
  "AssessmentAnswer list \<Rightarrow> (int \<times> Question) list \<Rightarrow> (string \<times> DimensionAnalysis) list
     \<Rightarrow> StatisticalMetrics" where
  "calculate_statistical_metrics anss qdict analyses =
     (let confidence_scores = map (\<lambda>(dk, a). confidence_level a) analyses;
          ci =
            (if confidence_scores \<noteq> []
             then
               let mean_confidence = statistics_mean confidence_scores;
                   std_confidence =
                     (if length confidence_scores > 1 then statistics_stdev confidence_scores
                      else 0.1)
               in (max 0 (mean_confidence - 1.96 * std_confidence),
                   min 1 (mean_confidence + 1.96 * std_confidence))
             else (0, 1))
      in \<lparr>internal_consistency = calculate_internal_consistency anss qdict,
          response_consistency = calculate_response_consistency anss,
          extreme_response_bias = calculate_extreme_response_bias anss,
          acquiescence_bias = calculate_acquiescence_bias anss qdict,
          response_time_variance = 0.5,
          confidence_interval = ci\<rparr>)"

subsection \<open>Insights, write-back and the entry point\<close>

definition identify_borderline_dimensions_enhanced ::
  "(string \<times> DimensionAnalysis) list \<Rightarrow> string list" where
  "identify_borderline_dimensions_enhanced analyses =
     map fst
       (filter (\<lambda>(dk, analysis).
                  let close_to_neutral = \<bar>percentage analysis - 0.5\<bar> < 0.1;
                      low_confidence = confidence_level analysis < 0.7;
                      high_uncertainty = standard_error analysis > 0.15
                  in close_to_neutral \<or> (low_confidence \<and> high_uncertainty))
          analyses)"

definition predict_type_stability ::
  "(string \<times> DimensionAnalysis) list \<Rightarrow> StatisticalMetrics \<Rightarrow> real" where
  "predict_type_stability analyses metrics =
     (let strength_scores = map (\<lambda>(dk, a). percentage a) analyses;
          confidence_scores = map (\<lambda>(dk, a). confidence_level a) analyses
      in if strength_scores = [] \<or> confidence_scores = [] then 0.5
         else
           let avg_strength = statistics_mean (map (\<lambda>score. \<bar>score - 0.5\<bar> * 2) strength_scores);
               avg_confidence = statistics_mean confidence_scores;
               stat_quality = (internal_consistency metrics + response_consistency metrics) / 2;
               bias_penalty = (extreme_response_bias metrics + acquiescence_bias metrics) / 2;
               stability = avg_strength * 0.4 + avg_confidence * 0.3 + stat_quality * 0.2
                            - bias_penalty * 0.1
           in max 0 (min 1 stability))"

definition calculate_assessment_quality ::
  "StatisticalMetrics \<Rightarrow> (string \<times> DimensionAnalysis) list \<Rightarrow> real" where
  "calculate_assessment_quality metrics analyses =
     (let quality_factors =
            [internal_consistency metrics,
             response_consistency metrics,
             1 - extreme_response_bias metrics,
             1 - acquiescence_bias metrics];
          quality_factors =
            (if analyses \<noteq> []
             then quality_factors @ [statistics_mean (map (\<lambda>(dk, a). confidence_level a) analyses)]
             else quality_factors)
      in statistics_mean quality_factors)"

definition should_recommend_retesting :: "real \<Rightarrow> real \<Rightarrow> bool" where
  "should_recommend_retesting quality_score type_conf =
     (quality_score < dict_item QUALITY_THRESHOLDS ''acceptable'' \<or> type_conf < 0.6)"

definition update_session_with_enhanced_results ::
  "bool \<Rightarrow> database \<Rightarrow> int \<Rightarrow> AssessmentSession \<Rightarrow> EnhancedPersonalityResult
     \<Rightarrow> (error + unit) \<times> database" where
  "update_session_with_enhanced_results commit_ok db sid session result =
     (let session =
            (case personality_type_by_code db (type_code_e result) of
               Some pt \<Rightarrow> session\<lparr>personality_type_id := Some (id_PersonalityType pt)\<rparr>
             | None \<Rightarrow> session);
          session = session\<lparr>e_strength := Some (dict_get (preference_strengths_e result) ''E'' 0)\<rparr>;
          session = session\<lparr>s_strength := Some (dict_get (preference_strengths_e result) ''S'' 0)\<rparr>;
          session = session\<lparr>t_strength := Some (dict_get (preference_strengths_e result) ''T'' 0)\<rparr>;
          session = session\<lparr>j_strength := Some (dict_get (preference_strengths_e result) ''J'' 0)\<rparr>;
          session = session\<lparr>ei_clarity := map_of (preference_clarity_e result) ''EI''\<rparr>;
          session = session\<lparr>sn_clarity := map_of (preference_clarity_e result) ''SN''\<rparr>;
          session = session\<lparr>tf_clarity := map_of (preference_clarity_e result) ''TF''\<rparr>;
          session = session\<lparr>jp_clarity := map_of (preference_clarity_e result) ''JP''\<rparr>
      in if commit_ok
         then (Inr (), db\<lparr>sessions := (sessions db)(sid \<mapsto> session)\<rparr>)
         else (Inl CommitFailed, db))"

definition validate_and_get_data ::
  "database \<Rightarrow> int \<Rightarrow> error + (AssessmentSession \<times> AssessmentAnswer list \<times> (int \<times> Question) list)" where
  "validate_and_get_data db sid =
     (case sessions db sid of
        None \<Rightarrow> Inl (SessionNotFound sid)
      | Some session \<Rightarrow>
          if \<not> is_completed session then Inl (SessionNotCompleted sid)
          else
            let anss = filter (\<lambda>a. session_id a = sid) (answers db)
            in if length anss \<noteq> 36 then Inl (IncompleteAssessment (length anss))
               else Inr (session, anss, active_questions db))"

definition calculate_enhanced_personality_type ::
  "statistics_module \<Rightarrow> bool \<Rightarrow> database \<Rightarrow> int
     \<Rightarrow> (error + EnhancedPersonalityResult) \<times> database" where
  "calculate_enhanced_personality_type py commit_ok db sid =
     (case validate_and_get_data db sid of
        Inl e \<Rightarrow> (Inl e, db)
      | Inr (session, anss, qdict) \<Rightarrow>
          let analyses = calculate_dimensional_analyses anss qdict
          in case determine_type_with_confidence py analyses of
               Inl e \<Rightarrow> (Inl e, db)
             | Inr (tc, type_conf) \<Rightarrow>
                 let metrics = calculate_statistical_metrics anss qdict analyses;
                     borderline_dims = identify_borderline_dimensions_enhanced analyses;
                     stability_prediction = predict_type_stability analyses metrics;
                     quality_score = calculate_assessment_quality metrics analyses;
                     result =
                       \<lparr>personality_type_e = type_name_of db tc,
                        type_code_e = tc,
                        type_confidence = type_conf,
                        dimension_analyses = analyses,
                        statistical_metrics = metrics,
                        borderline_dimensions_e = borderline_dims,
                        type_stability_prediction = stability_prediction,
                        assessment_quality_score = quality_score,
                        retesting_recommended = should_recommend_retesting quality_score type_conf,
                        preference_strengths_e = map (\<lambda>(dk, a). (dk, percentage a)) analyses,
                        preference_clarity_e = map (\<lambda>(dk, a). (dk, strength_category a)) analyses\<rparr>
                 in case update_session_with_enhanced_results commit_ok db sid session result of
                      (Inl e, db') \<Rightarrow> (Inl e, db')
                    | (Inr u, db') \<Rightarrow> (Inr result, db'))"

section \<open>The seeded tables (src/database_init.py) and sessions over them\<close>

definition mk_question :: "int \<Rightarrow> PersonalityDimension \<Rightarrow> Question" where
  "mk_question i d =
     \<lparr>id_Question = i, dimension = d, option_a_maps_to_first = True, is_active = True\<rparr>"

text \<open>\<open>initialize_questions\<close>: 36 questions in order, three per dimension in turn,
  option A mapping to the first letter in every one.\<close>

definition seeded_questions :: "Question list" where
  "seeded_questions =
     [mk_question 1 EI, mk_question 2 EI, mk_question 3 EI,
      mk_question 4 SN, mk_question 5 SN, mk_question 6 SN,
      mk_question 7 TF, mk_question 8 TF, mk_question 9 TF,
      mk_question 10 JP, mk_question 11 JP, mk_question 12 JP,
      mk_question 13 EI, mk_question 14 EI, mk_question 15 EI,
      mk_question 16 SN, mk_question 17 SN, mk_question 18 SN,
      mk_question 19 TF, mk_question 20 TF, mk_question 21 TF,
      mk_question 22 JP, mk_question 23 JP, mk_question 24 JP,
      mk_question 25 EI, mk_question 26 EI, mk_question 27 EI,
      mk_question 28 SN, mk_question 29 SN, mk_question 30 SN,
      mk_question 31 TF, mk_question 32 TF, mk_question 33 TF,
      mk_question 34 JP, mk_question 35 JP, mk_question 36 JP]"

definition mk_type :: "int \<Rightarrow> string \<Rightarrow> string \<Rightarrow> PersonalityType" where
  "mk_type i c n = \<lparr>id_PersonalityType = i, code = c, name_en = Some n\<rparr>"

text \<open>\<open>initialize_personality_types\<close>: the sixteen types in the order they are added.\<close>

definition seeded_personality_types :: "PersonalityType list" where
  "seeded_personality_types =
     [mk_type 1 ''INTJ'' ''The Strategist'', mk_type 2 ''INTP'' ''The Thinker'',
      mk_type 3 ''ENTJ'' ''The Commander'', mk_type 4 ''ENTP'' ''The Innovator'',
      mk_type 5 ''INFJ'' ''The Advocate'', mk_type 6 ''INFP'' ''The Mediator'',
      mk_type 7 ''ENFJ'' ''The Protagonist'', mk_type 8 ''ENFP'' ''The Campaigner'',
      mk_type 9 ''ISTJ'' ''The Logistician'', mk_type 10 ''ISFJ'' ''The Protector'',
      mk_type 11 ''ESTJ'' ''The Executive'', mk_type 12 ''ESFJ'' ''The Consul'',
      mk_type 13 ''ISTP'' ''The Virtuoso'', mk_type 14 ''ISFP'' ''The Adventurer'',
      mk_type 15 ''ESTP'' ''The Entrepreneur'', mk_type 16 ''ESFP'' ''The Entertainer'']"

definition mk_answer :: "int \<Rightarrow> string \<Rightarrow> AssessmentAnswer" where
  "mk_answer q opt = \<lparr>session_id = 1, question_id = q, selected_option = opt\<rparr>"

text \<open>A completed session with no result stored yet.\<close>

definition completed_session :: AssessmentSession where
  "completed_session =
     \<lparr>is_completed = True, personality_type_id = None,
      e_strength = None, s_strength = None, t_strength = None, j_strength = None,
      ei_clarity = None, sn_clarity = None, tf_clarity = None, jp_clarity = None\<rparr>"

definition mk_database :: "Question list \<Rightarrow> AssessmentAnswer list \<Rightarrow> database" where
  "mk_database qs anss =
     \<lparr>sessions = [1 \<mapsto> completed_session], answers = anss, questions = qs,
      personality_types = seeded_personality_types\<rparr>"

text \<open>Sessions used as concrete inputs. Every one has session 1 completed, with 36
  answers, over the seeded tables or a small change of them.\<close>

definition all_A_answers :: "AssessmentAnswer list" where
  "all_A_answers = map (\<lambda>q. mk_answer q ''A'') [1..36]"

definition all_A_db :: database where
  "all_A_db = mk_database seeded_questions all_A_answers"

text \<open>One question short: the first 35 questions answered.\<close>

definition short_db :: database where
  "short_db = mk_database seeded_questions (map (\<lambda>q. mk_answer q ''A'') [1..35])"

text \<open>Question 27 (an E-I question) was deactivated after the session had answered
  all 36 questions.\<close>

definition deactivate :: "int \<Rightarrow> Question list \<Rightarrow> Question list" where
  "deactivate i qs = map (\<lambda>q. if id_Question q = i then q\<lparr>is_active := False\<rparr> else q) qs"

definition inactive_db :: database where
  "inactive_db = mk_database (deactivate 27 seeded_questions) all_A_answers"

text \<open>Question 27 was replaced by a new S-N question 37 before the session: 36 active
  questions, eight of them E-I. The session answers all 36, B on four of the E-I
  questions and A everywhere else, so E and I are tied at 4.\<close>

definition tie_questions :: "Question list" where
  "tie_questions = deactivate 27 seeded_questions @ [mk_question 37 SN]"

definition tie_answers :: "AssessmentAnswer list" where
  "tie_answers =
     map (\<lambda>q. mk_answer q (if q \<in> {14, 15, 25, 26} then ''B'' else ''A'')) ([1..26] @ [28..37])"

definition tie_db :: database where
  "tie_db = mk_database tie_questions tie_answers"

text \<open>The seeded questions, five answered A and four answered B in every dimension.\<close>

definition balanced_answers :: "AssessmentAnswer list" where
  "balanced_answers =
     map (\<lambda>q. mk_answer q
                 (if q \<le> 12 \<or> q \<in> {13, 14, 16, 17, 19, 20, 22, 23} then ''A'' else ''B''))
       [1..36]"

definition balanced_db :: database where
  "balanced_db = mk_database seeded_questions balanced_answers"

text \<open>A tally with every pair answered, one pair tied.\<close>

definition mixed_scores :: PersonalityScores where
  "mixed_scores =
     \<lparr>e_score = 6, i_score = 3, s_score = 4, n_score = 5,
      t_score = 9, f_score = 0, j_score = 4, p_score = 4\<rparr>"

section \<open>What the specification says, in its own words\<close>

text \<open>Type Resolver: the first letter on a strict majority of the first count, the
  second letter on a strict majority of the second, the fixed tie-break letter on
  equal counts.\<close>

definition resolve_letter_spec :: "string \<Rightarrow> string \<Rightarrow> string \<Rightarrow> nat \<Rightarrow> nat \<Rightarrow> string" where
  "resolve_letter_spec first_letter second_letter tie_letter first_count second_count =
     (if first_count = second_count then tie_letter
      else if first_count > second_count then first_letter
      else second_letter)"

text \<open>Strength of a pair: the winning side's strength is \<open>max / total\<close>, lies between
  one half and one, is one half exactly on a tie, and the two percentages add up to
  one.\<close>

definition pair_strength_ok ::
  "(string \<times> real) list \<Rightarrow> string \<Rightarrow> string \<Rightarrow> nat \<Rightarrow> nat \<Rightarrow> bool" where
  "pair_strength_ok strengths a b first_count second_count =
     (let w = max (dict_get strengths a 0) (dict_get strengths b 0)
      in w = real (max first_count second_count) / real (first_count + second_count)
         \<and> 1 / 2 \<le> w \<and> w \<le> 1
         \<and> (w = 1 / 2 \<longleftrightarrow> first_count = second_count)
         \<and> dict_get strengths a 0 + dict_get strengths b 0 = 1)"

text \<open>The two named threshold presets.\<close>

definition BASIC_THRESHOLDS_spec :: "real \<Rightarrow> PreferenceStrength" where
  "BASIC_THRESHOLDS_spec strength =
     (if strength < 0.60 then SLIGHT
      else if strength < 0.75 then MODERATE
      else if strength < 0.90 then CLEAR
      else VERY_CLEAR)"

definition PROFESSIONAL_THRESHOLDS_spec :: "real \<Rightarrow> PreferenceStrength" where
  "PROFESSIONAL_THRESHOLDS_spec strength =
     (if strength < 0.56 then SLIGHT
      else if strength < 0.66 then MODERATE
      else if strength < 0.76 then CLEAR
      else VERY_CLEAR)"

text \<open>An answer is known when its question is in the dictionary of active questions;
  \<open>tallied\<close> is the number of answers a tally has counted.\<close>

definition known :: "(int \<times> Question) list \<Rightarrow> AssessmentAnswer \<Rightarrow> bool" where
  "known qdict a = (map_of qdict (question_id a) \<noteq> None)"

definition tallied :: "PersonalityScores \<Rightarrow> nat" where
  "tallied sc =
     e_score sc + i_score sc + s_score sc + n_score sc
       + t_score sc + f_score sc + j_score sc + p_score sc"

section \<open>Auxiliary notions relating the two variants\<close>

text \<open>The nested counters of the enhanced variant that correspond to a basic tally.\<close>

definition counts_of :: "PersonalityScores \<Rightarrow> (string \<times> (string \<times> nat) list) list" where
  "counts_of sc =
     [(''EI'', [(''E'', e_score sc), (''I'', i_score sc), (''total'', e_score sc + i_score sc)]),
      (''SN'', [(''S'', s_score sc), (''N'', n_score sc), (''total'', s_score sc + n_score sc)]),
      (''TF'', [(''T'', t_score sc), (''F'', f_score sc), (''total'', t_score sc + f_score sc)]),
      (''JP'', [(''J'', j_score sc), (''P'', p_score sc), (''total'', j_score sc + p_score sc)])]"

text \<open>The letter the enhanced variant resolves for a pair: the tie-break letter only
  when the pair has no answer at all, else the first letter unless the second count
  is strictly larger.\<close>

definition enhanced_letter :: "string \<Rightarrow> string \<Rightarrow> string \<Rightarrow> nat \<Rightarrow> nat \<Rightarrow> string" where
  "enhanced_letter first_letter second_letter tie_letter first_count second_count =
     (if first_count + second_count = 0 then tie_letter
      else if first_count \<ge> second_count then first_letter
      else second_letter)"

section \<open>Type Resolver\<close>

text \<open>C3. For every tally the basic Type Resolver emits, for each pair, the fixed
  tie-break letter (I, N, F, P) when the two counts are equal, whatever the other
  pairs are, and the letter of the strict majority otherwise; the four letters are
  concatenated in the order EI, SN, TF, JP.\<close>

theorem determine_personality_type_tie_break:
  "determine_personality_type scores =
     resolve_letter_spec ''E'' ''I'' ''I'' (e_score scores) (i_score scores) @
     resolve_letter_spec ''S'' ''N'' ''N'' (s_score scores) (n_score scores) @
     resolve_letter_spec ''T'' ''F'' ''F'' (t_score scores) (f_score scores) @
     resolve_letter_spec ''J'' ''P'' ''P'' (j_score scores) (p_score scores)"
  by (simp add: determine_personality_type_def resolve_letter_spec_def dict_item_def
      TIE_BREAKING_RULES_def)

section \<open>Strength and clarity\<close>

lemma pair_arith:
  fixes a b :: nat
  assumes "0 < a + b"
  shows "max (real a / real (a + b)) (real b / real (a + b)) = real (max a b) / real (a + b)"
    and "1 / 2 \<le> real (max a b) / real (a + b)"
    and "real (max a b) / real (a + b) \<le> 1"
    and "(real (max a b) / real (a + b) = 1 / 2) = (a = b)"
    and "real a / real (a + b) + real b / real (a + b) = 1"
proof -
  have pos: "0 < real (a + b)" using assms by (simp only: of_nat_0_less_iff)
  show "max (real a / real (a + b)) (real b / real (a + b)) = real (max a b) / real (a + b)"
  proof (cases "a \<le> b")
    case True
    then have "real a / real (a + b) \<le> real b / real (a + b)"
      using pos by (simp add: divide_right_mono)
    with True show ?thesis by (simp add: max_def)
  next
    case False
    then have "real b / real (a + b) \<le> real a / real (a + b)"
      using pos by (simp add: divide_right_mono)
    with False show ?thesis by (simp add: max_def)
  qed
  have "real (a + b) \<le> 2 * real (max a b)" by (simp add: max_def)
  then show "1 / 2 \<le> real (max a b) / real (a + b)"
    using pos by (simp add: pos_le_divide_eq)
  have "real (max a b) \<le> real (a + b)" by (simp add: max_def)
  then show "real (max a b) / real (a + b) \<le> 1"
    using pos by (simp add: pos_divide_le_eq)
  have "(real (a + b) = 2 * real (max a b)) = (a = b)"
    by (cases "a \<le> b") (auto simp: max_def)
  then show "(real (max a b) / real (a + b) = 1 / 2) = (a = b)"
    using pos by (simp add: field_simps)
  show "real a / real (a + b) + real b / real (a + b) = 1"
    using pos by (simp add: add_divide_distrib [symmetric] del: of_nat_add)
qed

text \<open>What \<open>strengths.get(letter, 0)\<close> reads from the strengths dictionary.\<close>

lemma strengths_get:
  "dict_get (calculate_preference_strengths s) ''E'' 0 =
     (if 0 < e_score s + i_score s then real (e_score s) / real (e_score s + i_score s) else 0)"
  "dict_get (calculate_preference_strengths s) ''I'' 0 =
     (if 0 < e_score s + i_score s then real (i_score s) / real (e_score s + i_score s) else 0)"
  "dict_get (calculate_preference_strengths s) ''S'' 0 =
     (if 0 < s_score s + n_score s then real (s_score s) / real (s_score s + n_score s) else 0)"
  "dict_get (calculate_preference_strengths s) ''N'' 0 =
     (if 0 < s_score s + n_score s then real (n_score s) / real (s_score s + n_score s) else 0)"
  "dict_get (calculate_preference_strengths s) ''T'' 0 =
     (if 0 < t_score s + f_score s then real (t_score s) / real (t_score s + f_score s) else 0)"
  "dict_get (calculate_preference_strengths s) ''F'' 0 =
     (if 0 < t_score s + f_score s then real (f_score s) / real (t_score s + f_score s) else 0)"
  "dict_get (calculate_preference_strengths s) ''J'' 0 =
     (if 0 < j_score s + p_score s then real (j_score s) / real (j_score s + p_score s) else 0)"
  "dict_get (calculate_preference_strengths s) ''P'' 0 =
     (if 0 < j_score s + p_score s then real (p_score s) / real (j_score s + p_score s) else 0)"
  by (simp_all add: calculate_preference_strengths_def dict_get_def Let_def update_conv'
      del: of_nat_add)

text \<open>C8. For every dimension pair with \<open>total > 0\<close>, the winning-side strength
  equals \<open>max(countFirst, countSecond) / total\<close>, lies in [0.5, 1.0], is exactly 0.5
  on a tie (and only then), and the two percentages of the pair sum to 1. Strengths
  are real numbers here; the source computes them in floating point.\<close>

theorem preference_strengths_bounds:
  "(0 < e_score s + i_score s \<longrightarrow>
      pair_strength_ok (calculate_preference_strengths s) ''E'' ''I'' (e_score s) (i_score s))
   \<and> (0 < s_score s + n_score s \<longrightarrow>
      pair_strength_ok (calculate_preference_strengths s) ''S'' ''N'' (s_score s) (n_score s))
   \<and> (0 < t_score s + f_score s \<longrightarrow>
      pair_strength_ok (calculate_preference_strengths s) ''T'' ''F'' (t_score s) (f_score s))
   \<and> (0 < j_score s + p_score s \<longrightarrow>
      pair_strength_ok (calculate_preference_strengths s) ''J'' ''P'' (j_score s) (p_score s))"
  unfolding pair_strength_ok_def Let_def strengths_get
  using pair_arith [of "e_score s" "i_score s"] pair_arith [of "s_score s" "n_score s"]
    pair_arith [of "t_score s" "f_score s"] pair_arith [of "j_score s" "p_score s"]
  by (simp del: of_nat_add)

theorem preference_strengths_bounds_witness:
  "0 < e_score mixed_scores + i_score mixed_scores
   \<and> 0 < s_score mixed_scores + n_score mixed_scores
   \<and> 0 < t_score mixed_scores + f_score mixed_scores
   \<and> 0 < j_score mixed_scores + p_score mixed_scores
   \<and> pair_strength_ok (calculate_preference_strengths mixed_scores) ''E'' ''I'' 6 3
   \<and> pair_strength_ok (calculate_preference_strengths mixed_scores) ''S'' ''N'' 4 5
   \<and> pair_strength_ok (calculate_preference_strengths mixed_scores) ''T'' ''F'' 9 0
   \<and> pair_strength_ok (calculate_preference_strengths mixed_scores) ''J'' ''P'' 4 4"
  using preference_strengths_bounds [of mixed_scores]
  by (simp add: mixed_scores_def)

lemma clarity_category_spec: "clarity_category x = BASIC_THRESHOLDS_spec x"
  by (simp add: clarity_category_def BASIC_THRESHOLDS_spec_def)

text \<open>C9. For every winning-side strength the basic variant classifies clarity by the
  thresholds 0.60, 0.75, 0.90 and the enhanced variant by the professional thresholds
  0.56, 0.66, 0.76, each in ascending order with \<open>VERY_CLEAR\<close> last; the two tables
  are separate and differ at every key.\<close>

theorem clarity_thresholds:
  "map_of (calculate_preference_clarity strengths) ''EI'' =
      Some (BASIC_THRESHOLDS_spec (max (dict_get strengths ''E'' 0) (dict_get strengths ''I'' 0)))
   \<and> map_of (calculate_preference_clarity strengths) ''SN'' =
      Some (BASIC_THRESHOLDS_spec (max (dict_get strengths ''S'' 0) (dict_get strengths ''N'' 0)))
   \<and> map_of (calculate_preference_clarity strengths) ''TF'' =
      Some (BASIC_THRESHOLDS_spec (max (dict_get strengths ''T'' 0) (dict_get strengths ''F'' 0)))
   \<and> map_of (calculate_preference_clarity strengths) ''JP'' =
      Some (BASIC_THRESHOLDS_spec (max (dict_get strengths ''J'' 0) (dict_get strengths ''P'' 0)))
   \<and> determine_strength_category pct = PROFESSIONAL_THRESHOLDS_spec pct
   \<and> strength_category (analyse_dimension dk scores) =
      PROFESSIONAL_THRESHOLDS_spec (percentage (analyse_dimension dk scores))
   \<and> (\<forall>k. STRENGTH_THRESHOLDS k \<noteq> PROFESSIONAL_THRESHOLDS k)"
proof -
  have prof: "\<And>x. determine_strength_category x = PROFESSIONAL_THRESHOLDS_spec x"
    by (simp add: determine_strength_category_def PROFESSIONAL_THRESHOLDS_spec_def)
  have differ: "STRENGTH_THRESHOLDS k \<noteq> PROFESSIONAL_THRESHOLDS k" for k
    by (cases k) simp_all
  show ?thesis
    by (simp add: calculate_preference_clarity_def dominant_strengths_def clarity_category_spec
        prof differ analyse_dimension_def Let_def)
qed

section \<open>Answers to unknown or inactive questions\<close>

lemma foldl_score_skip:
  "foldl (score_answer qdict) acc (filter (known qdict) anss) =
     foldl (score_answer qdict) acc anss"
  by (induction anss arbitrary: acc) (auto simp: known_def score_answer_def)

lemma foldl_count_skip:
  "foldl (count_answer qdict) acc (filter (known qdict) anss) =
     foldl (count_answer qdict) acc anss"
  by (induction anss arbitrary: acc) (auto simp: known_def count_answer_def)

lemma tallied_increment: "tallied (increment_score sc d m) = Suc (tallied sc)"
  by (cases d) (simp_all add: tallied_def)

lemma foldl_score_tallied:
  "tallied (foldl (score_answer qdict) acc anss) =
     tallied acc + length (filter (known qdict) anss)"
  by (induction anss arbitrary: acc) (auto simp: known_def score_answer_def tallied_increment)

text \<open>C2, as stated, fails. In \<open>inactive_db\<close> the answer at index 26 belongs to
  session 1 and references question 27, which is not among the active questions; the
  call succeeds all the same, and its tally counts 8 E-I answers instead of 9.\<close>

theorem unknown_question_not_rejected:
  "question_id (all_A_answers ! 26) = 27
   \<and> session_id (all_A_answers ! 26) = 1
   \<and> map_of (active_questions inactive_db) 27 = None
   \<and> map_sum id dimension_scores (fst (calculate_personality_type True inactive_db 1)) =
       Inr \<lparr>e_score = 8, i_score = 0, s_score = 9, n_score = 0,
            t_score = 9, f_score = 0, j_score = 9, p_score = 0\<rparr>"
  by code_simp

text \<open>C2, amended. Scoring a completed session with 36 answers does not fail when an
  answer references a question that is absent from the catalog or not active: such
  an answer is passed over. The tally is the tally of the remaining answers, it
  counts exactly those, and the enhanced variant's analyses ignore the same answers.\<close>

theorem unknown_questions_skipped:
  assumes "sessions db sid = Some session" and "is_completed session"
    and "length (filter (\<lambda>a. session_id a = sid) (answers db)) = 36"
  shows "\<exists>r. fst (calculate_personality_type True db sid) = Inr r
           \<and> dimension_scores r =
               calculate_dimension_scores
                 (filter (known (active_questions db))
                    (filter (\<lambda>a. session_id a = sid) (answers db)))
                 (active_questions db)
           \<and> tallied (dimension_scores r) =
               length (filter (known (active_questions db))
                         (filter (\<lambda>a. session_id a = sid) (answers db)))
           \<and> calculate_dimensional_analyses (filter (\<lambda>a. session_id a = sid) (answers db))
                 (active_questions db) =
               calculate_dimensional_analyses
                 (filter (known (active_questions db))
                    (filter (\<lambda>a. session_id a = sid) (answers db)))
                 (active_questions db)"
proof -
  let ?anss = "filter (\<lambda>a. session_id a = sid) (answers db)"
  let ?qd = "active_questions db"
  let ?r = "build_result db (calculate_dimension_scores ?anss ?qd) (map snd ?qd)"
  have call: "fst (calculate_personality_type True db sid) = Inr ?r"
    using assms
    by (simp add: calculate_personality_type_def Let_def update_session_with_results_def)
  have scores: "dimension_scores ?r = calculate_dimension_scores ?anss ?qd"
    by (simp add: build_result_def Let_def)
  have skip: "calculate_dimension_scores (filter (known ?qd) ?anss) ?qd =
      calculate_dimension_scores ?anss ?qd"
    by (simp only: calculate_dimension_scores_def foldl_score_skip)
  have "tallied PersonalityScores_init = 0"
    by (simp add: tallied_def PersonalityScores_init_def)
  then have count:
    "tallied (calculate_dimension_scores ?anss ?qd) = length (filter (known ?qd) ?anss)"
    by (simp only: calculate_dimension_scores_def foldl_score_tallied add_0)
  have enh: "calculate_dimensional_analyses ?anss ?qd =
      calculate_dimensional_analyses (filter (known ?qd) ?anss) ?qd"
    by (simp only: calculate_dimensional_analyses_def foldl_count_skip)
  from call scores skip count enh show ?thesis
    by (intro exI [of _ ?r]) (simp only: simp_thms)
qed

theorem unknown_questions_skipped_witness:
  "sessions inactive_db 1 = Some completed_session
   \<and> is_completed completed_session
   \<and> length (filter (\<lambda>a. session_id a = 1) (answers inactive_db)) = 36
   \<and> (\<exists>r. fst (calculate_personality_type True inactive_db 1) = Inr r
          \<and> tallied (dimension_scores r) = 35)"
proof -
  have h1: "sessions inactive_db 1 = Some completed_session"
    by (simp add: inactive_db_def mk_database_def)
  have h2: "is_completed completed_session"
    by (simp add: completed_session_def)
  have h3: "length (filter (\<lambda>a. session_id a = 1) (answers inactive_db)) = 36"
    by code_simp
  have n: "length (filter (known (active_questions inactive_db))
             (filter (\<lambda>a. session_id a = 1) (answers inactive_db))) = 35"
    by code_simp
  from unknown_questions_skipped [OF h1 h2 h3] n
  have "\<exists>r. fst (calculate_personality_type True inactive_db 1) = Inr r
          \<and> tallied (dimension_scores r) = 35"
    by auto
  with h1 h2 h3 show ?thesis by blast
qed

section \<open>Failure leaves the session as it was\<close>

text \<open>C4. When the number of answers of an existing, completed session is not 36, the
  session entry point fails with \<open>IncompleteAssessment\<close> and returns the database as
  it was; and on every failure of either variant (session missing or not completed,
  wrong answer count, an error of the statistics module, a failed commit) the
  database, and so every stored type, strength and clarity field, is unchanged.\<close>

theorem incomplete_assessment_no_write:
  "(sessions db sid = Some session \<and> is_completed session
      \<and> length (filter (\<lambda>a. session_id a = sid) (answers db)) \<noteq> 36
     \<longrightarrow> calculate_personality_type commit_ok db sid =
           (Inl (IncompleteAssessment (length (filter (\<lambda>a. session_id a = sid) (answers db)))), db))
   \<and> (isl (fst (calculate_personality_type commit_ok db sid))
     \<longrightarrow> snd (calculate_personality_type commit_ok db sid) = db)
   \<and> (isl (fst (calculate_enhanced_personality_type py commit_ok db sid))
     \<longrightarrow> snd (calculate_enhanced_personality_type py commit_ok db sid) = db)"
  by (auto simp: calculate_personality_type_def calculate_enhanced_personality_type_def
      validate_and_get_data_def Let_def update_session_with_results_def
      update_session_with_enhanced_results_def
      split: option.splits sum.splits prod.splits if_splits)

theorem incomplete_assessment_no_write_witness:
  "sessions short_db 1 = Some completed_session
   \<and> is_completed completed_session
   \<and> length (filter (\<lambda>a. session_id a = 1) (answers short_db)) \<noteq> 36
   \<and> calculate_personality_type True short_db 1 = (Inl (IncompleteAssessment 35), short_db)
   \<and> isl (fst (calculate_personality_type True short_db 1))
   \<and> snd (calculate_personality_type True short_db 1) = short_db
   \<and> isl (fst (calculate_enhanced_personality_type Zero_Raises True short_db 1))
   \<and> snd (calculate_enhanced_personality_type Zero_Raises True short_db 1) = short_db"
proof -
  have h1: "sessions short_db 1 = Some completed_session"
    by (simp add: short_db_def mk_database_def)
  have h2: "is_completed completed_session"
    by (simp add: completed_session_def)
  have h3: "length (filter (\<lambda>a. session_id a = 1) (answers short_db)) = 35"
    by code_simp
  have e: "isl (fst (calculate_enhanced_personality_type Zero_Raises True short_db 1))"
    using h1 h2 h3
    by (simp add: calculate_enhanced_personality_type_def validate_and_get_data_def)
  from incomplete_assessment_no_write [of short_db 1 completed_session True Zero_Raises] h1 h2 h3 e
  show ?thesis by simp
qed

section \<open>The raw-response entry point\<close>

text \<open>C10. The raw-response entry point returns the database it was given, for every
  list of responses, every outcome of the random draws and every database; the
  session entry point does not (it writes the result into session 1 of \<open>all_A_db\<close>).\<close>

theorem from_responses_no_write:
  "snd (calculate_personality_type_from_responses choice db responses) = db
   \<and> snd (calculate_personality_type True all_A_db 1) \<noteq> all_A_db"
proof -
  have "map_option e_strength (sessions (snd (calculate_personality_type True all_A_db 1)) 1)
      = Some (Some 1)"
    by code_simp
  moreover have "map_option e_strength (sessions all_A_db 1) = Some None"
    by code_simp
  ultimately have "snd (calculate_personality_type True all_A_db 1) \<noteq> all_A_db"
    by auto
  then show ?thesis
    by (simp add: calculate_personality_type_from_responses_def Let_def
        split: option.splits prod.splits)
qed

section \<open>How the enhanced variant relates to the basic one\<close>

text \<open>Both variants count the same answers: the nested counters of the enhanced
  variant are those of the basic tally.\<close>

lemma counts_of_init: "dimension_scores_init = counts_of PersonalityScores_init"
  by (simp add: dimension_scores_init_def counts_of_def PersonalityScores_init_def)

lemma count_answer_counts_of:
  "count_answer qd (counts_of sc) a = counts_of (score_answer qd sc a)"
proof (cases "map_of qd (question_id a)")
  case None
  then show ?thesis by (simp add: count_answer_def score_answer_def)
next
  case (Some q)
  show ?thesis
    by (cases "dimension q"; cases "maps_to_first (selected_option a) q")
       (simp_all add: Some count_answer_def score_answer_def counts_of_def bump_def
          dict_item_def dim_key_def Let_def)
qed

lemma foldl_count_answer_counts_of:
  "foldl (count_answer qd) (counts_of sc) anss = counts_of (foldl (score_answer qd) sc anss)"
  by (induction anss arbitrary: sc) (simp_all add: count_answer_counts_of)

lemma enhanced_counts:
  "foldl (count_answer qd) dimension_scores_init anss =
     counts_of (calculate_dimension_scores anss qd)"
  by (simp add: counts_of_init foldl_count_answer_counts_of calculate_dimension_scores_def)

lemma dict_item_total:
  "dict_item [(a, x), (b, y), (''total'', t)] ''total'' =
     (if a = ''total'' then x else if b = ''total'' then y else t)"
  by (simp add: dict_item_def)

text \<open>The analyses dictionary has an entry for a dimension exactly when the dimension
  has an answer, and never an entry under a single letter.\<close>

lemma analyses_lookup:
  fixes anss qd
  defines "sc \<equiv> calculate_dimension_scores anss qd"
  shows "map_of (calculate_dimensional_analyses anss qd) ''EI'' =
      (if e_score sc + i_score sc = 0 then None
       else Some (analyse_dimension ''EI''
              [(''E'', e_score sc), (''I'', i_score sc), (''total'', e_score sc + i_score sc)]))"
    and "map_of (calculate_dimensional_analyses anss qd) ''SN'' =
      (if s_score sc + n_score sc = 0 then None
       else Some (analyse_dimension ''SN''
              [(''S'', s_score sc), (''N'', n_score sc), (''total'', s_score sc + n_score sc)]))"
    and "map_of (calculate_dimensional_analyses anss qd) ''TF'' =
      (if t_score sc + f_score sc = 0 then None
       else Some (analyse_dimension ''TF''
              [(''T'', t_score sc), (''F'', f_score sc), (''total'', t_score sc + f_score sc)]))"
    and "map_of (calculate_dimensional_analyses anss qd) ''JP'' =
      (if j_score sc + p_score sc = 0 then None
       else Some (analyse_dimension ''JP''
              [(''J'', j_score sc), (''P'', p_score sc), (''total'', j_score sc + p_score sc)]))"
  unfolding sc_def calculate_dimensional_analyses_def enhanced_counts counts_of_def Let_def
  by (simp_all add: dict_item_total update_conv')

lemma analyses_no_letter_keys:
  "map_of (calculate_dimensional_analyses anss qd) ''E'' = None"
  "map_of (calculate_dimensional_analyses anss qd) ''S'' = None"
  "map_of (calculate_dimensional_analyses anss qd) ''T'' = None"
  "map_of (calculate_dimensional_analyses anss qd) ''J'' = None"
  unfolding calculate_dimensional_analyses_def enhanced_counts counts_of_def Let_def
  by (simp_all add: dict_item_total update_conv')

lemma analyse_dimension_letter:
  "preference_letter (analyse_dimension ''EI'' [(''E'', x), (''I'', y), (''total'', t)]) =
     (if x \<ge> y then ''E'' else ''I'')"
  "preference_letter (analyse_dimension ''SN'' [(''S'', x), (''N'', y), (''total'', t)]) =
     (if x \<ge> y then ''S'' else ''N'')"
  "preference_letter (analyse_dimension ''TF'' [(''T'', x), (''F'', y), (''total'', t)]) =
     (if x \<ge> y then ''T'' else ''F'')"
  "preference_letter (analyse_dimension ''JP'' [(''J'', x), (''P'', y), (''total'', t)]) =
     (if x \<ge> y then ''J'' else ''P'')"
  by (simp_all add: analyse_dimension_def Let_def dict_get_def)

text \<open>The four letters of the enhanced variant, for every answer list and catalog.\<close>

lemma enhanced_letters:
  "map fst (type_letters_and_confidences (calculate_dimensional_analyses anss qd)) =
     [enhanced_letter ''E'' ''I'' ''I''
        (e_score (calculate_dimension_scores anss qd)) (i_score (calculate_dimension_scores anss qd)),
      enhanced_letter ''S'' ''N'' ''N''
        (s_score (calculate_dimension_scores anss qd)) (n_score (calculate_dimension_scores anss qd)),
      enhanced_letter ''T'' ''F'' ''F''
        (t_score (calculate_dimension_scores anss qd)) (f_score (calculate_dimension_scores anss qd)),
      enhanced_letter ''J'' ''P'' ''P''
        (j_score (calculate_dimension_scores anss qd)) (p_score (calculate_dimension_scores anss qd))]"
  unfolding type_letters_and_confidences_def list.map analyses_lookup enhanced_letter_def
  by (simp add: analyse_dimension_letter dict_item_def TIE_BREAKING_RULES_e_def)

lemma enhanced_letter_resolve:
  "first_count \<noteq> second_count \<or> first_count + second_count = 0 \<Longrightarrow>
   enhanced_letter a b c first_count second_count =
     resolve_letter_spec a b c first_count second_count"
  by (auto simp: enhanced_letter_def resolve_letter_spec_def)

text \<open>The two variants resolve the same type code whenever no pair that has an answer
  is tied.\<close>

lemma enhanced_type_agrees_without_ties:
  fixes anss qd
  defines "sc \<equiv> calculate_dimension_scores anss qd"
  assumes "e_score sc \<noteq> i_score sc \<or> e_score sc + i_score sc = 0"
    and "s_score sc \<noteq> n_score sc \<or> s_score sc + n_score sc = 0"
    and "t_score sc \<noteq> f_score sc \<or> t_score sc + f_score sc = 0"
    and "j_score sc \<noteq> p_score sc \<or> j_score sc + p_score sc = 0"
  shows "concat (map fst (type_letters_and_confidences (calculate_dimensional_analyses anss qd)))
           = determine_personality_type sc"
  using assms(2-5) unfolding sc_def enhanced_letters
  by (simp add: enhanced_letter_resolve determine_personality_type_def dict_item_def
      TIE_BREAKING_RULES_def resolve_letter_spec_def)

text \<open>A tied dimension with answers has confidence level 0.\<close>

lemma confidence_level_tie: "0 < n \<Longrightarrow> calculate_confidence_level n (2 * n) = 0"
  by (simp add: calculate_confidence_level_def Let_def)

text \<open>The write-back of the basic variant stores the strengths and clarity categories
  of the result it returns; the write-back of the enhanced variant stores 0 in the
  four strength fields, whatever the result.\<close>

lemma basic_write_back:
  assumes "calculate_personality_type True db sid = (Inr r, db')"
  shows "map_option e_strength (sessions db' sid)
           = Some (Some (dict_get (preference_strengths r) ''E'' 0))
       \<and> map_option s_strength (sessions db' sid)
           = Some (Some (dict_get (preference_strengths r) ''S'' 0))
       \<and> map_option t_strength (sessions db' sid)
           = Some (Some (dict_get (preference_strengths r) ''T'' 0))
       \<and> map_option j_strength (sessions db' sid)
           = Some (Some (dict_get (preference_strengths r) ''J'' 0))
       \<and> map_option ei_clarity (sessions db' sid) = Some (map_of (preference_clarity r) ''EI'')
       \<and> map_option sn_clarity (sessions db' sid) = Some (map_of (preference_clarity r) ''SN'')
       \<and> map_option tf_clarity (sessions db' sid) = Some (map_of (preference_clarity r) ''TF'')
       \<and> map_option jp_clarity (sessions db' sid) = Some (map_of (preference_clarity r) ''JP'')"
  using assms
  by (auto simp: calculate_personality_type_def Let_def update_session_with_results_def
      split: option.splits sum.splits prod.splits if_splits)

lemma map_of_percentages:
  "map_of (map (\<lambda>(dk, a). (dk, percentage a)) analyses) k =
     map_option percentage (map_of analyses k)"
  by (induction analyses) auto

lemma enhanced_write_back_always_zero:
  assumes "calculate_enhanced_personality_type py True db sid = (Inr r, db')"
  shows "map_option e_strength (sessions db' sid) = Some (Some 0)
       \<and> map_option s_strength (sessions db' sid) = Some (Some 0)
       \<and> map_option t_strength (sessions db' sid) = Some (Some 0)
       \<and> map_option j_strength (sessions db' sid) = Some (Some 0)"
  using assms
  by (auto simp: calculate_enhanced_personality_type_def validate_and_get_data_def Let_def
      update_session_with_enhanced_results_def dict_get_def map_of_percentages
      analyses_no_letter_keys
      split: option.splits sum.splits prod.splits if_splits)

section \<open>The enhanced variant on concrete sessions\<close>

text \<open>Each of the three sessions answers every active question exactly once, and
  there are 36 active questions.\<close>

lemma inputs_complete:
  "map question_id tie_answers = map id_Question (filter is_active (questions tie_db))"
  "map question_id all_A_answers = map id_Question (filter is_active (questions all_A_db))"
  "map question_id balanced_answers = map id_Question (filter is_active (questions balanced_db))"
  "length (filter is_active (questions tie_db)) = 36"
  "length (filter is_active (questions all_A_db)) = 36"
  "length (filter is_active (questions balanced_db)) = 36"
  by code_simp+

lemma confidence_level_tied: "calculate_confidence_level 4 8 = 0"
  by (simp add: calculate_confidence_level_def Let_def)

lemma confidence_level_unanimous: "0 < n \<Longrightarrow> calculate_confidence_level n n = 1"
  by (simp add: calculate_confidence_level_def Let_def)

lemma confidence_level_5_of_9: "0 < calculate_confidence_level 5 9"
  by (simp add: calculate_confidence_level_def Let_def)

subsection \<open>A tied dimension\<close>

lemma tie_counts:
  "foldl (count_answer (active_questions tie_db)) dimension_scores_init tie_answers =
     [(''EI'', [(''E'', 4), (''I'', 4), (''total'', 8)]),
      (''SN'', [(''S'', 10), (''N'', 0), (''total'', 10)]),
      (''TF'', [(''T'', 9), (''F'', 0), (''total'', 9)]),
      (''JP'', [(''J'', 9), (''P'', 0), (''total'', 9)])]"
  by code_simp

lemma tie_picks:
  "type_letters_and_confidences
     (calculate_dimensional_analyses tie_answers (active_questions tie_db))
     = [(''E'', 0), (''S'', 1), (''T'', 1), (''J'', 1)]"
  by (simp add: type_letters_and_confidences_def calculate_dimensional_analyses_def tie_counts
      analyse_dimension_def dict_item_def dict_get_def Let_def confidence_level_tied
      confidence_level_unanimous)

lemma tie_validate:
  "validate_and_get_data tie_db 1 = Inr (completed_session, tie_answers, active_questions tie_db)"
proof -
  have "filter (\<lambda>a. session_id a = 1) (answers tie_db) = tie_answers" by code_simp
  moreover have "length tie_answers = 36" by code_simp
  moreover have "sessions tie_db 1 = Some completed_session"
    by (simp add: tie_db_def mk_database_def)
  moreover have "is_completed completed_session" by (simp add: completed_session_def)
  ultimately show ?thesis by (simp add: validate_and_get_data_def)
qed

lemma tie_type:
  "determine_type_with_confidence Zero_Returns
     (calculate_dimensional_analyses tie_answers (active_questions tie_db)) = Inr (''ESTJ'', 0)"
  "determine_type_with_confidence Zero_Raises
     (calculate_dimensional_analyses tie_answers (active_questions tie_db)) = Inl StatisticsError"
  by (simp_all add: determine_type_with_confidence_def tie_picks geometric_mean_def)

lemma tie_enhanced_call:
  "map_sum id type_code_e (fst (calculate_enhanced_personality_type Zero_Returns True tie_db 1))
     = Inr ''ESTJ''"
  "map_sum id type_confidence (fst (calculate_enhanced_personality_type Zero_Returns True tie_db 1))
     = Inr 0"
  "fst (calculate_enhanced_personality_type Zero_Raises True tie_db 1) = Inl StatisticsError"
  by (simp_all add: calculate_enhanced_personality_type_def tie_validate tie_type Let_def
       update_session_with_enhanced_results_def)

text \<open>C1 fails on the code. In \<open>tie_db\<close> E and I are tied at 4 of 8. The basic variant
  resolves the type ISTJ. The enhanced variant picks the letters E, S, T, J, since its
  comparison \<open>first_score \<ge> second_score\<close> gives a tie to the first letter; it
  returns ESTJ where \<open>geometric_mean\<close> accepts a zero and raises \<open>StatisticsError\<close>
  where it does not.\<close>

theorem enhanced_type_differs_on_tie:
  "map_sum id type_code (fst (calculate_personality_type True tie_db 1)) = Inr ''ISTJ''
   \<and> map fst (type_letters_and_confidences
        (calculate_dimensional_analyses tie_answers (active_questions tie_db)))
       = [''E'', ''S'', ''T'', ''J'']
   \<and> map_sum id type_code_e (fst (calculate_enhanced_personality_type Zero_Returns True tie_db 1))
       = Inr ''ESTJ''
   \<and> fst (calculate_enhanced_personality_type Zero_Raises True tie_db 1) = Inl StatisticsError"
proof -
  have "map_sum id type_code (fst (calculate_personality_type True tie_db 1)) = Inr ''ISTJ''"
    by code_simp
  then show ?thesis by (simp add: tie_picks tie_enhanced_call)
qed

text \<open>C6 fails on the code. In \<open>tie_db\<close> the tied dimension E-I enters the mean with
  its computed confidence 0, not with 0.51: the confidences are 0, 1, 1, 1, and the
  overall confidence is 0 (or the call raises), while the geometric mean of
  0.51, 1, 1, 1 is positive.\<close>

theorem tied_dimension_confidence_is_zero:
  "map snd (type_letters_and_confidences
        (calculate_dimensional_analyses tie_answers (active_questions tie_db))) = [0, 1, 1, 1]
   \<and> map_sum id type_confidence
        (fst (calculate_enhanced_personality_type Zero_Returns True tie_db 1)) = Inr 0
   \<and> fst (calculate_enhanced_personality_type Zero_Raises True tie_db 1) = Inl StatisticsError
   \<and> geometric_mean py [0.51, 1, 1, 1] = Inr (root 4 0.51)
   \<and> 0 < root 4 (0.51 :: real)"
  by (simp add: tie_picks tie_enhanced_call geometric_mean_def eval_nat_numeral)

subsection \<open>Every answer A\<close>

lemma all_A_counts:
  "foldl (count_answer (active_questions all_A_db)) dimension_scores_init all_A_answers =
     [(''EI'', [(''E'', 9), (''I'', 0), (''total'', 9)]),
      (''SN'', [(''S'', 9), (''N'', 0), (''total'', 9)]),
      (''TF'', [(''T'', 9), (''F'', 0), (''total'', 9)]),
      (''JP'', [(''J'', 9), (''P'', 0), (''total'', 9)])]"
  by code_simp

lemma all_A_validate:
  "validate_and_get_data all_A_db 1 =
     Inr (completed_session, all_A_answers, active_questions all_A_db)"
proof -
  have "filter (\<lambda>a. session_id a = 1) (answers all_A_db) = all_A_answers" by code_simp
  moreover have "length all_A_answers = 36" by code_simp
  moreover have "sessions all_A_db 1 = Some completed_session"
    by (simp add: all_A_db_def mk_database_def)
  moreover have "is_completed completed_session" by (simp add: completed_session_def)
  ultimately show ?thesis by (simp add: validate_and_get_data_def)
qed

lemma all_A_picks:
  "type_letters_and_confidences
     (calculate_dimensional_analyses all_A_answers (active_questions all_A_db))
     = [(''E'', 1), (''S'', 1), (''T'', 1), (''J'', 1)]"
  by (simp add: type_letters_and_confidences_def calculate_dimensional_analyses_def all_A_counts
      analyse_dimension_def dict_item_def dict_get_def Let_def confidence_level_unanimous)

lemma all_A_strengths:
  "map (\<lambda>(dk, a). (dk, percentage a))
     (calculate_dimensional_analyses all_A_answers (active_questions all_A_db))
     = [(''EI'', 1), (''SN'', 1), (''TF'', 1), (''JP'', 1)]"
  by (simp add: calculate_dimensional_analyses_def all_A_counts
      analyse_dimension_def dict_item_def dict_get_def Let_def)

lemma all_A_type:
  "determine_type_with_confidence py
     (calculate_dimensional_analyses all_A_answers (active_questions all_A_db))
     = Inr (''ESTJ'', 1)"
  by (simp add: determine_type_with_confidence_def all_A_picks geometric_mean_def)

text \<open>C5 fails on the code for the enhanced variant. In \<open>all_A_db\<close> the enhanced call
  succeeds and returns the strengths 1, 1, 1, 1 under the keys EI, SN, TF, JP; the
  write-back reads the keys E, S, T, J, finds none and stores 0 in all four strength
  fields. The basic call on the same session stores 1 for E.\<close>

theorem enhanced_write_back_stores_zero:
  "map_sum id preference_strengths_e
        (fst (calculate_enhanced_personality_type py True all_A_db 1))
       = Inr [(''EI'', 1), (''SN'', 1), (''TF'', 1), (''JP'', 1)]
   \<and> map_option e_strength
        (sessions (snd (calculate_enhanced_personality_type py True all_A_db 1)) 1) = Some (Some 0)
   \<and> map_option s_strength
        (sessions (snd (calculate_enhanced_personality_type py True all_A_db 1)) 1) = Some (Some 0)
   \<and> map_option t_strength
        (sessions (snd (calculate_enhanced_personality_type py True all_A_db 1)) 1) = Some (Some 0)
   \<and> map_option j_strength
        (sessions (snd (calculate_enhanced_personality_type py True all_A_db 1)) 1) = Some (Some 0)
   \<and> map_option e_strength
        (sessions (snd (calculate_personality_type True all_A_db 1)) 1) = Some (Some 1)"
proof -
  have basic: "map_option e_strength
      (sessions (snd (calculate_personality_type True all_A_db 1)) 1) = Some (Some 1)"
    by code_simp
  show ?thesis
    by (simp add: basic calculate_enhanced_personality_type_def all_A_validate all_A_type Let_def
        update_session_with_enhanced_results_def all_A_strengths dict_get_def
        split: option.splits)
qed

subsection \<open>Five A and four B in every dimension\<close>

lemma balanced_counts:
  "foldl (count_answer (active_questions balanced_db)) dimension_scores_init balanced_answers =
     [(''EI'', [(''E'', 5), (''I'', 4), (''total'', 9)]),
      (''SN'', [(''S'', 5), (''N'', 4), (''total'', 9)]),
      (''TF'', [(''T'', 5), (''F'', 4), (''total'', 9)]),
      (''JP'', [(''J'', 5), (''P'', 4), (''total'', 9)])]"
  by code_simp

lemma balanced_validate:
  "validate_and_get_data balanced_db 1 =
     Inr (completed_session, balanced_answers, active_questions balanced_db)"
proof -
  have "filter (\<lambda>a. session_id a = 1) (answers balanced_db) = balanced_answers" by code_simp
  moreover have "length balanced_answers = 36" by code_simp
  moreover have "sessions balanced_db 1 = Some completed_session"
    by (simp add: balanced_db_def mk_database_def)
  moreover have "is_completed completed_session" by (simp add: completed_session_def)
  ultimately show ?thesis by (simp add: validate_and_get_data_def)
qed

lemma balanced_picks:
  "type_letters_and_confidences
     (calculate_dimensional_analyses balanced_answers (active_questions balanced_db))
     = [(''E'', calculate_confidence_level 5 9), (''S'', calculate_confidence_level 5 9),
        (''T'', calculate_confidence_level 5 9), (''J'', calculate_confidence_level 5 9)]"
  by (simp add: type_letters_and_confidences_def calculate_dimensional_analyses_def balanced_counts
      analyse_dimension_def dict_item_def dict_get_def Let_def)

lemma balanced_type:
  "\<exists>g. determine_type_with_confidence py
          (calculate_dimensional_analyses balanced_answers (active_questions balanced_db))
        = Inr (''ESTJ'', g)"
  using confidence_level_5_of_9
  by (simp add: determine_type_with_confidence_def balanced_picks geometric_mean_def)

lemma balanced_internal_consistency:
  "calculate_internal_consistency balanced_answers (active_questions balanced_db) = - 1 / 9"
  by code_simp

text \<open>C7 fails on the code. In \<open>balanced_db\<close> every dimension has five answers A and
  four answers B; the sample variance of such a dimension is 5/18, above the divisor
  0.25, so its consistency is \<open>1 - (5/18) / 0.25 = - 1/9\<close>. The enhanced call succeeds
  and returns the internal consistency \<open>- 1/9\<close>, below 0.\<close>

theorem internal_consistency_negative:
  "calculate_internal_consistency balanced_answers (active_questions balanced_db) = - 1 / 9
   \<and> map_sum id (internal_consistency \<circ> statistical_metrics)
        (fst (calculate_enhanced_personality_type py True balanced_db 1)) = Inr (- 1 / 9)"
proof -
  obtain g where g:
    "determine_type_with_confidence py
       (calculate_dimensional_analyses balanced_answers (active_questions balanced_db))
     = Inr (''ESTJ'', g)"
    using balanced_type by blast
  show ?thesis
    by (simp add: balanced_internal_consistency calculate_enhanced_personality_type_def
        balanced_validate g Let_def update_session_with_enhanced_results_def
        calculate_statistical_metrics_def)
qed

end
